theory Spec2Isabelle
  imports Main "HOL-Library.Sublist"
begin

section \<open>Python values and exceptions\<close>

text \<open>
  The values \<^verbatim>\<open>response.json()\<close> can return, and \<^verbatim>\<open>None\<close>. A \<^verbatim>\<open>str\<close> is a
  \<open>string\<close> holding the UTF-8 bytes of its text; a \<^verbatim>\<open>dict\<close> is an association list in
  insertion order, read at the first binding of a key (a decoded document has each key
  once); a \<^verbatim>\<open>float\<close> is kept as its \<^verbatim>\<open>repr\<close>, which determines it.
\<close>

datatype pyval =
    PyNone
  | PyBool bool
  | PyInt int
  | PyFloat string
  | PyStr string
  | PyList "pyval list"
  | PyDict "(string \<times> pyval) list"

text \<open>
  Exceptions, all below \<^verbatim>\<open>Exception\<close>. \<open>http_exn\<close> is what the HTTP client and the
  decoder of the response can raise, each with its \<^verbatim>\<open>str(e)\<close>, in the three classes the
  handlers of \<^verbatim>\<open>make_nws_request\<close> tell apart; the number of \<open>HTTPStatusError\<close> is
  \<^verbatim>\<open>e.response.status_code\<close>. \<open>exn\<close> is what a subscript or a method call of the
  program itself can raise.
\<close>

datatype http_exn =
    HTTPStatusError nat string
  | TimeoutException string
  | OtherException string

datatype exn =
    KeyError string
  | TypeError
  | AttributeError

type_synonym 'a result = "exn + 'a"

text \<open>Truth value of an object: \<^verbatim>\<open>not data\<close> is \<open>\<not> truthy data\<close>.\<close>

fun truthy :: "pyval \<Rightarrow> bool" where
  "truthy PyNone = False"
| "truthy (PyBool b) = b"
| "truthy (PyInt i) = (i \<noteq> 0)"
| "truthy (PyFloat r) = (r \<noteq> ''0.0'' \<and> r \<noteq> ''-0.0'')"
| "truthy (PyStr s) = (s \<noteq> [])"
| "truthy (PyList xs) = (xs \<noteq> [])"
| "truthy (PyDict kvs) = (kvs \<noteq> [])"

text \<open>\<^verbatim>\<open>key in container\<close> for a \<^verbatim>\<open>str\<close> key: membership among the keys of a dict,
  among the elements of a list, substring of a str; a \<^verbatim>\<open>TypeError\<close> on anything else.\<close>

fun py_contains :: "pyval \<Rightarrow> string \<Rightarrow> bool result" where
  "py_contains (PyDict kvs) k = Inr (k \<in> set (map fst kvs))"
| "py_contains (PyList xs) k = Inr (PyStr k \<in> set xs)"
| "py_contains (PyStr s) k = Inr (sublist k s)"
| "py_contains _ k = Inl TypeError"

text \<open>\<^verbatim>\<open>container[key]\<close> for a \<^verbatim>\<open>str\<close> key: only a dict can be subscripted by a str.\<close>

fun py_getitem :: "pyval \<Rightarrow> string \<Rightarrow> pyval result" where
  "py_getitem (PyDict kvs) k = (case map_of kvs k of None \<Rightarrow> Inl (KeyError k) | Some v \<Rightarrow> Inr v)"
| "py_getitem _ k = Inl TypeError"

text \<open>\<^verbatim>\<open>props.get(key, default)\<close>: a method of dicts only.\<close>

fun py_get :: "pyval \<Rightarrow> string \<Rightarrow> pyval \<Rightarrow> pyval result" where
  "py_get (PyDict kvs) k d = (case map_of kvs k of None \<Rightarrow> Inr d | Some v \<Rightarrow> Inr v)"
| "py_get _ k d = Inl AttributeError"

text \<open>The elements a \<^verbatim>\<open>for\<close> loop or a comprehension visits. A str yields its characters
  as strs of length one (here: its bytes; every use below fails on the first of them
  either way, and an empty str yields nothing either way).\<close>

fun py_iter :: "pyval \<Rightarrow> pyval list result" where
  "py_iter (PyList xs) = Inr xs"
| "py_iter (PyDict kvs) = Inr (map (\<lambda>kv. PyStr (fst kv)) kvs)"
| "py_iter (PyStr s) = Inr (map (\<lambda>c. PyStr [c]) s)"
| "py_iter _ = Inl TypeError"

text \<open>\<^verbatim>\<open>periods[:5]\<close>: the first five elements of a list or characters of a str; a dict,
  a number and \<^verbatim>\<open>None\<close> cannot be sliced (a dict raises \<^verbatim>\<open>TypeError\<close> up to
  Python 3.11 and \<^verbatim>\<open>KeyError\<close> from 3.12 on; no handler of the program tells them
  apart).\<close>

fun py_slice5 :: "pyval \<Rightarrow> pyval result" where
  "py_slice5 (PyList xs) = Inr (PyList (take 5 xs))"
| "py_slice5 (PyStr s) = Inr (PyStr (take 5 s))"
| "py_slice5 (PyDict kvs) = Inl TypeError"
| "py_slice5 _ = Inl TypeError"

text \<open>Decimal digits of an unbounded integer, as \<^verbatim>\<open>str(int)\<close> prints them.\<close>

fun dec_nat :: "nat \<Rightarrow> string" where
  "dec_nat n = (if n < 10 then [char_of (48 + n)] else dec_nat (n div 10) @ [char_of (48 + n mod 10)])"

declare dec_nat.simps [simp del]

definition dec_int :: "int \<Rightarrow> string" where
  "dec_int i = (if i < 0 then CHR ''-'' # dec_nat (nat (- i)) else dec_nat (nat i))"

text \<open>
  \<^verbatim>\<open>str(x)\<close>, which an f-string applies to each value it interpolates. The text of a
  list or a dict is the \<^verbatim>\<open>repr\<close> of the interpreter, taken as the parameter \<open>crepr\<close>.
\<close>

fun py_str :: "(pyval \<Rightarrow> string) \<Rightarrow> pyval \<Rightarrow> string" where
  "py_str crepr PyNone = ''None''"
| "py_str crepr (PyBool b) = (if b then ''True'' else ''False'')"
| "py_str crepr (PyInt i) = dec_int i"
| "py_str crepr (PyFloat r) = r"
| "py_str crepr (PyStr s) = s"
| "py_str crepr (PyList xs) = crepr (PyList xs)"
| "py_str crepr (PyDict kvs) = crepr (PyDict kvs)"

text \<open>\<^verbatim>\<open>sep.join(parts)\<close>.\<close>

fun join :: "string \<Rightarrow> string list \<Rightarrow> string" where
  "join sep [] = []"
| "join sep [x] = x"
| "join sep (x # y # ys) = x @ sep @ join sep (y # ys)"

text \<open>Sequencing of results: the first exception raised ends the computation.\<close>

fun bind :: "'a result \<Rightarrow> ('a \<Rightarrow> 'b result) \<Rightarrow> 'b result" where
  "bind (Inl e) f = Inl e"
| "bind (Inr x) f = f x"

fun map_result :: "('a \<Rightarrow> 'b result) \<Rightarrow> 'a list \<Rightarrow> 'b list result" where
  "map_result f [] = Inr []"
| "map_result f (x # xs) = bind (f x) (\<lambda>y. bind (map_result f xs) (\<lambda>ys. Inr (y # ys)))"

section \<open>Formatting an alert\<close>

definition format_alert :: "(pyval \<Rightarrow> string) \<Rightarrow> pyval \<Rightarrow> string result" where
  "format_alert crepr feature =
     bind (py_getitem feature ''properties'') (\<lambda>props.
     bind (py_get props ''event'' (PyStr ''Unknown'')) (\<lambda>event.
     bind (py_get props ''areaDesc'' (PyStr ''Unknown'')) (\<lambda>area.
     bind (py_get props ''severity'' (PyStr ''Unknown'')) (\<lambda>severity.
     bind (py_get props ''description'' (PyStr ''No description available'')) (\<lambda>description.
     bind (py_get props ''instruction'' (PyStr ''No specific instructions provided'')) (\<lambda>instruction.
     Inr ([CHR 0x0A] @ ''Event: '' @ py_str crepr event @ [CHR 0x0A]
          @ ''Area: '' @ py_str crepr area @ [CHR 0x0A]
          @ ''Severity: '' @ py_str crepr severity @ [CHR 0x0A]
          @ ''Description: '' @ py_str crepr description @ [CHR 0x0A]
          @ ''Instructions: '' @ py_str crepr instruction @ [CHR 0x0A])))))))"

section \<open>The world around the program\<close>

text \<open>
  What one GET can do: \<^verbatim>\<open>client.get\<close> raises, or a response arrives with its status
  code, the text \<^verbatim>\<open>raise_for_status\<close> gives its \<^verbatim>\<open>HTTPStatusError\<close>, and what
  \<^verbatim>\<open>response.json()\<close> does (raise, or return the decoded document).
\<close>

datatype http_outcome =
    Raises http_exn
  | Response nat string "http_exn + pyval"

text \<open>
  Everything the program reads from outside, as oracles indexed by the number of
  earlier reads: the UUIDs drawn, the clock, the outcome of each GET (given the argument
  passed as URL). \<open>seconds6f t0 t1\<close> is \<^verbatim>\<open>f"{(t1 - t0).total_seconds():.6f}"\<close>, which
  goes through a float; \<open>container_repr\<close> is \<^verbatim>\<open>repr\<close> on lists and dicts. \<open>threshold\<close> is the
  effective level of the logger, set at line 45 from \<^verbatim>\<open>LOG_LEVEL\<close>, \<^verbatim>\<open>INFO\<close> when unset.
\<close>

record 't world =
  threshold :: nat
  uuid4 :: "nat \<Rightarrow> string"
  now :: "nat \<Rightarrow> 't"
  seconds6f :: "'t \<Rightarrow> 't \<Rightarrow> string"
  http_get :: "nat \<Rightarrow> pyval \<Rightarrow> http_outcome"
  container_repr :: "pyval \<Rightarrow> string"
  getpid :: int
  current_thread :: string

definition DEBUG :: nat where "DEBUG = 10"
definition INFO :: nat where "INFO = 20"
definition WARNING :: nat where "WARNING = 30"
definition ERROR :: nat where "ERROR = 40"

text \<open>\<^verbatim>\<open>os.getenv(key, default)\<close> on the environment of the process.\<close>

definition getenv :: "(string \<rightharpoonup> string) \<Rightarrow> string \<Rightarrow> string \<Rightarrow> string" where
  "getenv environ k d = (case environ k of None \<Rightarrow> d | Some v \<Rightarrow> v)"

text \<open>
  Line 45, \<^verbatim>\<open>logger.setLevel(os.getenv("LOG_LEVEL", "INFO"))\<close>: the names \<^verbatim>\<open>logging\<close>
  knows and their levels. On any other name \<^verbatim>\<open>setLevel\<close> raises and the module does
  not load (\<open>None\<close>); with \<^verbatim>\<open>NOTSET\<close> the logger takes the level of the root logger. The
  \<open>threshold\<close> of a world is a level this gives.
\<close>

definition nameToLevel :: "string \<Rightarrow> nat option" where
  "nameToLevel level_name =
     map_of [(''CRITICAL'', 50), (''FATAL'', 50), (''ERROR'', ERROR), (''WARN'', WARNING),
             (''WARNING'', WARNING), (''INFO'', INFO), (''DEBUG'', DEBUG), (''NOTSET'', 0)] level_name"

definition effective_level :: "(string \<rightharpoonup> string) \<Rightarrow> nat \<Rightarrow> nat option" where
  "effective_level environ root_level =
     (case nameToLevel (getenv environ ''LOG_LEVEL'' ''INFO'') of
        None \<Rightarrow> None
      | Some lvl \<Rightarrow> Some (if lvl = 0 then root_level else lvl))"

text \<open>The three context variables (lines 14 to 16).\<close>

record call_context =
  correlation_id :: string
  request_id :: string
  user_id :: string

text \<open>
  A log record as \<^verbatim>\<open>logging\<close> builds it: the attributes the formatter reads, the
  exception attached by \<^verbatim>\<open>exc_info=True\<close> or \<^verbatim>\<open>logger.exception\<close> (raised by the HTTP
  call, \<open>Inl\<close>, or by the program, \<open>Inr\<close>), and the \<^verbatim>\<open>extra\<close> dict, whose entries become
  attributes of the record.
\<close>

record LogRecord =
  levelname :: string
  levelno :: nat
  name :: string
  message :: string
  filename :: string
  lineno :: nat
  funcName :: string
  process :: int
  threadName :: string
  exc_info :: "(http_exn + exn) option"
  extra :: "(string \<times> string) list"

text \<open>
  The state the program changes: the records the logger has passed to its handlers, each
  with the context its formatter reads at that moment; the arguments of the GETs issued
  so far; the context variables; how many UUIDs and clock readings were drawn.
\<close>

record state =
  log :: "(LogRecord \<times> call_context) list"
  requests :: "pyval list"
  ctx :: call_context
  uuid_count :: nat
  now_count :: nat

definition fresh_uuid :: "'t world \<Rightarrow> state \<Rightarrow> string \<times> state" where
  "fresh_uuid w s = (uuid4 w (uuid_count s), s\<lparr>uuid_count := Suc (uuid_count s)\<rparr>)"

definition read_clock :: "'t world \<Rightarrow> state \<Rightarrow> 't \<times> state" where
  "read_clock w s = (now w (now_count s), s\<lparr>now_count := Suc (now_count s)\<rparr>)"

definition client_get :: "'t world \<Rightarrow> pyval \<Rightarrow> state \<Rightarrow> http_outcome \<times> state" where
  "client_get w url s = (http_get w (length (requests s)) url, s\<lparr>requests := requests s @ [url]\<rparr>)"

text \<open>
  One call of the logger \<^verbatim>\<open>WeatherService\<close>: a record is made and handled when the
  level of the call reaches the threshold, and nothing happens otherwise.
\<close>

definition emit ::
  "'t world \<Rightarrow> nat \<Rightarrow> string \<Rightarrow> nat \<Rightarrow> string \<Rightarrow> string \<Rightarrow> (http_exn + exn) option
    \<Rightarrow> (string \<times> string) list \<Rightarrow> state \<Rightarrow> state" where
  "emit w lvl lvlname line func msg exc ex s =
     (if threshold w \<le> lvl
      then s\<lparr>log := log s @
             [(\<lparr>levelname = lvlname, levelno = lvl, name = ''WeatherService'', message = msg,
                filename = ''weather.py'', lineno = line, funcName = func,
                process = getpid w, threadName = current_thread w,
                exc_info = exc, extra = ex\<rparr>, ctx s)]\<rparr>
      else s)"

definition logger_debug ::
  "'t world \<Rightarrow> nat \<Rightarrow> string \<Rightarrow> string \<Rightarrow> (string \<times> string) list \<Rightarrow> state \<Rightarrow> state" where
  "logger_debug w line func msg ex = emit w DEBUG ''DEBUG'' line func msg None ex"

definition logger_info ::
  "'t world \<Rightarrow> nat \<Rightarrow> string \<Rightarrow> string \<Rightarrow> (string \<times> string) list \<Rightarrow> state \<Rightarrow> state" where
  "logger_info w line func msg ex = emit w INFO ''INFO'' line func msg None ex"

definition logger_warning ::
  "'t world \<Rightarrow> nat \<Rightarrow> string \<Rightarrow> string \<Rightarrow> (string \<times> string) list \<Rightarrow> state \<Rightarrow> state" where
  "logger_warning w line func msg ex = emit w WARNING ''WARNING'' line func msg None ex"

text \<open>\<^verbatim>\<open>logger.error(..., exc_info=True)\<close> and \<^verbatim>\<open>logger.exception(...)\<close> inside a handler:
  level \<^verbatim>\<open>ERROR\<close>, with the exception being handled attached.\<close>

definition logger_error ::
  "'t world \<Rightarrow> nat \<Rightarrow> string \<Rightarrow> string \<Rightarrow> (http_exn + exn) \<Rightarrow> (string \<times> string) list
    \<Rightarrow> state \<Rightarrow> state" where
  "logger_error w line func msg e ex = emit w ERROR ''ERROR'' line func msg (Some e) ex"

definition logger_exception ::
  "'t world \<Rightarrow> nat \<Rightarrow> string \<Rightarrow> string \<Rightarrow> (http_exn + exn) \<Rightarrow> (string \<times> string) list
    \<Rightarrow> state \<Rightarrow> state" where
  "logger_exception w line func msg e ex = emit w ERROR ''ERROR'' line func msg (Some e) ex"

section \<open>The instrumented fetcher\<close>

definition NWS_API_BASE :: string where
  "NWS_API_BASE = ''https://api.weather.gov''"

text \<open>\<^verbatim>\<open>response.raise_for_status()\<close> of httpx raises unless the status is 2xx.\<close>

definition is_success :: "nat \<Rightarrow> bool" where
  "is_success status_code = (200 \<le> status_code \<and> status_code \<le> 299)"

fun exn_str :: "http_exn \<Rightarrow> string" where
  "exn_str (HTTPStatusError status_code txt) = txt"
| "exn_str (TimeoutException txt) = txt"
| "exn_str (OtherException txt) = txt"

text \<open>The \<^verbatim>\<open>try\<close> block of \<^verbatim>\<open>make_nws_request\<close> (lines 83 to 90): \<open>Inl\<close> is the
  exception it raises, \<open>Inr\<close> the value it returns.\<close>

definition request_try ::
  "'t world \<Rightarrow> pyval \<Rightarrow> string \<Rightarrow> 't \<Rightarrow> state \<Rightarrow> (http_exn + pyval) \<times> state" where
  "request_try w url req_id start_time s =
     (let s1 = logger_debug w 83 ''make_nws_request''
                 (''Making request to: '' @ py_str (container_repr w) url) [(''request_id'', req_id)] s;
          (outcome, s2) = client_get w url s1
      in case outcome of
           Raises e \<Rightarrow> (Inl e, s2)
         | Response status_code txt body \<Rightarrow>
             if \<not> is_success status_code then (Inl (HTTPStatusError status_code txt), s2)
             else
               let (t, s3) = read_clock w s2;
                   s4 = logger_info w 88 ''make_nws_request''
                          (''Request to '' @ py_str (container_repr w) url @ '' successful. Status code: ''
                             @ dec_nat status_code)
                          [(''duration'', seconds6f w start_time t @ ''s''), (''request_id'', req_id)] s3
               in (body, s4))"

text \<open>\<^verbatim>\<open>make_nws_request\<close> (lines 73 to 105): the three handlers in the order of the
  source, each returning \<^verbatim>\<open>None\<close>.\<close>

definition make_nws_request :: "'t world \<Rightarrow> pyval \<Rightarrow> state \<Rightarrow> pyval \<times> state" where
  "make_nws_request w url s =
     (let (req_id, s1) = fresh_uuid w s;
          s2 = s1\<lparr>ctx := (ctx s1)\<lparr>request_id := req_id\<rparr>\<rparr>;
          (start_time, s3) = read_clock w s2;
          (r, s4) = request_try w url req_id start_time s3
      in case r of
           Inr v \<Rightarrow> (v, s4)
         | Inl e \<Rightarrow>
             let (t, s5) = read_clock w s4;
                 duration = seconds6f w start_time t @ ''s''
             in (case e of
                   HTTPStatusError status_code txt \<Rightarrow>
                     (PyNone, logger_error w 93 ''make_nws_request''
                                (''HTTP error occurred: '' @ exn_str e) (Inl e)
                                [(''error_code'', dec_nat status_code), (''duration'', duration),
                                 (''request_id'', req_id)] s5)
                 | TimeoutException txt \<Rightarrow>
                     (PyNone, logger_error w 98 ''make_nws_request''
                                (''Timeout error occurred: '' @ exn_str e) (Inl e)
                                [(''duration'', duration), (''request_id'', req_id)] s5)
                 | OtherException txt \<Rightarrow>
                     (PyNone, logger_exception w 103 ''make_nws_request''
                                (''An unexpected error occurred: '' @ exn_str e) (Inl e)
                                [(''duration'', duration), (''request_id'', req_id)] s5)))"

section \<open>The two operations\<close>

definition separator :: string where
  "separator = [CHR 0x0A] @ ''---'' @ [CHR 0x0A]"

text \<open>The \<^verbatim>\<open>try\<close> block of \<^verbatim>\<open>get_alerts\<close> (lines 130 to 146). \<^verbatim>\<open>data["features"]\<close> is
  read twice by the source, with the same result, and once here.\<close>

definition alerts_try ::
  "'t world \<Rightarrow> string \<Rightarrow> string \<Rightarrow> 't \<Rightarrow> state \<Rightarrow> string result \<times> state" where
  "alerts_try w state corr_id start_time s =
     (let s1 = logger_info w 130 ''get_alerts'' (''Getting alerts for state: '' @ state)
                 [(''correlation_id'', corr_id)] s;
          url = NWS_API_BASE @ ''/alerts/active/area/'' @ state;
          (data, s2) = make_nws_request w (PyStr url) s1
      in case (if \<not> truthy data then Inr True
               else bind (py_contains data ''features'') (\<lambda>b. Inr (\<not> b))) of
           Inl e \<Rightarrow> (Inl e, s2)
         | Inr missing \<Rightarrow>
             if missing
             then (Inr ''Unable to fetch alerts or no alerts found.'',
                   logger_warning w 135 ''get_alerts''
                     (''No data or 'features' key found for state: '' @ state)
                     [(''correlation_id'', corr_id)] s2)
             else
               (case py_getitem data ''features'' of
                  Inl e \<Rightarrow> (Inl e, s2)
                | Inr features \<Rightarrow>
                    if \<not> truthy features
                    then (Inr ''No active alerts for this state.'',
                          logger_info w 139 ''get_alerts''
                            (''No active alerts found for state: '' @ state)
                            [(''correlation_id'', corr_id)] s2)
                    else
                      (case bind (py_iter features) (map_result (format_alert (container_repr w))) of
                         Inl e \<Rightarrow> (Inl e, s2)
                       | Inr alerts \<Rightarrow>
                           let (t, s3) = read_clock w s2;
                               s4 = logger_info w 144 ''get_alerts''
                                      (''Successfully fetched and formatted alerts for state: '' @ state)
                                      [(''duration'', seconds6f w start_time t @ ''s''),
                                       (''correlation_id'', corr_id)] s3
                           in (Inr (join separator alerts), s4))))"

text \<open>\<^verbatim>\<open>get_alerts\<close> (lines 120 to 151): the handler of \<^verbatim>\<open>except Exception\<close> turns
  whatever the block raised into the fixed text.\<close>

definition get_alerts :: "'t world \<Rightarrow> string \<Rightarrow> state \<Rightarrow> string \<times> state" where
  "get_alerts w state s =
     (let (start_time, s1) = read_clock w s;
          (corr_id, s2) = fresh_uuid w s1;
          s3 = s2\<lparr>ctx := (ctx s2)\<lparr>correlation_id := corr_id\<rparr>\<rparr>;
          (r, s4) = alerts_try w state corr_id start_time s3
      in case r of
           Inr txt \<Rightarrow> (txt, s4)
         | Inl e \<Rightarrow>
             let (t, s5) = read_clock w s4
             in (''An error occurred while fetching alerts.'',
                 logger_exception w 149 ''get_alerts''
                   (''Error getting alerts for state: '' @ state) (Inr e)
                   [(''duration'', seconds6f w start_time t @ ''s''),
                    (''correlation_id'', corr_id)] s5))"

text \<open>The body of the loop over the periods (lines 186 to 191); the two bytes after the
  temperature are the characters the source file has there.\<close>

definition format_period :: "(pyval \<Rightarrow> string) \<Rightarrow> pyval \<Rightarrow> string result" where
  "format_period crepr period =
     bind (py_getitem period ''name'') (\<lambda>pname.
     bind (py_getitem period ''temperature'') (\<lambda>temperature.
     bind (py_getitem period ''temperatureUnit'') (\<lambda>temperatureUnit.
     bind (py_getitem period ''windSpeed'') (\<lambda>windSpeed.
     bind (py_getitem period ''windDirection'') (\<lambda>windDirection.
     bind (py_getitem period ''detailedForecast'') (\<lambda>detailedForecast.
     Inr ([CHR 0x0A] @ py_str crepr pname @ '':'' @ [CHR 0x0A]
          @ ''Temperature: '' @ py_str crepr temperature
          @ [CHR 0xC3, CHR 0x82, CHR 0xC2, CHR 0xB0] @ py_str crepr temperatureUnit @ [CHR 0x0A]
          @ ''Wind: '' @ py_str crepr windSpeed @ '' '' @ py_str crepr windDirection @ [CHR 0x0A]
          @ ''Forecast: '' @ py_str crepr detailedForecast @ [CHR 0x0A])))))))"

text \<open>Lines 183 to 192: the periods, cut to the first five, formatted in order.\<close>

definition format_periods :: "(pyval \<Rightarrow> string) \<Rightarrow> pyval \<Rightarrow> string list result" where
  "format_periods crepr forecast_data =
     bind (py_getitem forecast_data ''properties'') (\<lambda>props.
     bind (py_getitem props ''periods'') (\<lambda>periods.
     bind (py_slice5 periods) (\<lambda>first5.
     bind (py_iter first5) (map_result (format_period crepr)))))"

text \<open>The \<^verbatim>\<open>try\<close> block of \<^verbatim>\<open>get_forecast\<close> (lines 165 to 196); latitude and longitude
  are floats, given by their \<^verbatim>\<open>repr\<close>.\<close>

definition forecast_try ::
  "'t world \<Rightarrow> string \<Rightarrow> string \<Rightarrow> string \<Rightarrow> 't \<Rightarrow> state \<Rightarrow> string result \<times> state" where
  "forecast_try w latitude longitude corr_id start_time s =
     (let place = ''latitude: '' @ latitude @ '', longitude: '' @ longitude;
          s1 = logger_info w 165 ''get_forecast'' (''Getting forecast for '' @ place)
                 [(''correlation_id'', corr_id)] s;
          points_url = NWS_API_BASE @ ''/points/'' @ latitude @ '','' @ longitude;
          (data, s2) = make_nws_request w (PyStr points_url) s1
      in if \<not> truthy data
         then (Inr ''Unable to fetch forecast data for this location.'',
               logger_warning w 171 ''get_forecast'' (''Unable to fetch forecast data for '' @ place)
                 [(''correlation_id'', corr_id)] s2)
         else
           (case bind (py_getitem data ''properties'') (\<lambda>props. py_getitem props ''forecast'') of
              Inl e \<Rightarrow> (Inl e, s2)
            | Inr forecast_url \<Rightarrow>
                let (forecast_data, s3) = make_nws_request w forecast_url s2
                in if \<not> truthy forecast_data
                   then (Inr ''Unable to fetch detailed forecast.'',
                         logger_warning w 179 ''get_forecast''
                           (''Unable to fetch detailed forecast for '' @ place)
                           [(''correlation_id'', corr_id)] s3)
                   else
                     (case format_periods (container_repr w) forecast_data of
                        Inl e \<Rightarrow> (Inl e, s3)
                      | Inr forecasts \<Rightarrow>
                          let (t, s4) = read_clock w s3;
                              s5 = logger_info w 194 ''get_forecast''
                                     (''Successfully fetched and formatted forecast for '' @ place)
                                     [(''duration'', seconds6f w start_time t @ ''s''),
                                      (''correlation_id'', corr_id)] s4
                          in (Inr (join separator forecasts), s5))))"

definition get_forecast :: "'t world \<Rightarrow> string \<Rightarrow> string \<Rightarrow> state \<Rightarrow> string \<times> state" where
  "get_forecast w latitude longitude s =
     (let (start_time, s1) = read_clock w s;
          (corr_id, s2) = fresh_uuid w s1;
          s3 = s2\<lparr>ctx := (ctx s2)\<lparr>correlation_id := corr_id\<rparr>\<rparr>;
          (r, s4) = forecast_try w latitude longitude corr_id start_time s3
      in case r of
           Inr txt \<Rightarrow> (txt, s4)
         | Inl e \<Rightarrow>
             let (t, s5) = read_clock w s4
             in (''An error occurred while fetching forecast.'',
                 logger_exception w 199 ''get_forecast''
                   (''Error getting forecast for latitude: '' @ latitude @ '', longitude: '' @ longitude)
                   (Inr e)
                   [(''duration'', seconds6f w start_time t @ ''s''),
                    (''correlation_id'', corr_id)] s5))"

section \<open>The JSON formatter\<close>

text \<open>
  \<^verbatim>\<open>JSONFormatter.format\<close> (lines 19 to 41), up to the dict it hands to \<^verbatim>\<open>json.dumps\<close>.
  The keys are strs and the values strs and one int, which \<^verbatim>\<open>json.dumps\<close> writes as
  one JSON object with these members; the serialiser and the parser of the standard
  library are not modelled, and a property of the parsed line is stated of this dict.
  \<open>timestamp\<close> is \<^verbatim>\<open>datetime.datetime.now().isoformat()\<close>, \<open>format_exception\<close> the
  joined \<^verbatim>\<open>traceback.format_exception\<close> of the attached exception. Process id and
  thread name are never \<^verbatim>\<open>None\<close>: \<^verbatim>\<open>logging\<close> records them unless told not to, and the
  program never does. \<^verbatim>\<open>getattr(record, 'duration', '0.0s')\<close> and
  \<^verbatim>\<open>hasattr(record, 'error_details')\<close> read the attributes \<^verbatim>\<open>extra\<close> has set.
\<close>

definition format_json ::
  "(string \<rightharpoonup> string) \<Rightarrow> ((http_exn + exn) \<Rightarrow> string) \<Rightarrow> string \<Rightarrow> call_context \<Rightarrow> LogRecord
    \<Rightarrow> (string \<times> pyval) list" where
  "format_json environ format_exception timestamp c r =
     (let log_record =
            [(''timestamp'', PyStr timestamp),
             (''level'', PyStr (levelname r)),
             (''logger'', PyStr (name r)),
             (''message'', PyStr (message r)),
             (''correlation_id'', PyStr (correlation_id c)),
             (''request_id'', PyStr (request_id c)),
             (''user_id'', PyStr (user_id c)),
             (''file'', PyStr (filename r @ '':'' @ dec_nat (lineno r))),
             (''function'', PyStr (funcName r)),
             (''process'', PyInt (process r)),
             (''thread'', PyStr (threadName r)),
             (''environment'', PyStr (getenv environ ''ENV'' ''development'')),
             (''app_version'', PyStr (getenv environ ''APP_VERSION'' ''0.1.0'')),
             (''host'', PyStr (getenv environ ''HOSTNAME'' ''localhost'')),
             (''duration'', PyStr (case map_of (extra r) ''duration'' of
                                      None \<Rightarrow> ''0.0s'' | Some d \<Rightarrow> d))]
      in case exc_info r of
           Some e \<Rightarrow> log_record @ [(''error_details'', PyStr (format_exception e))]
         | None \<Rightarrow>
             (case map_of (extra r) ''error_details'' of
                Some d \<Rightarrow> log_record @ [(''error_details'', PyStr d)]
              | None \<Rightarrow> log_record))"

section \<open>Definitions used to state the properties\<close>

text \<open>
  The Fetch Outcome as the specification words it (section 3): the decoded document
  when the GET is answered with a 2xx status and the body decodes, absence otherwise.
  \<^verbatim>\<open>make_nws_request\<close> is compared with it below.
\<close>

definition spec_fetch_outcome :: "http_outcome \<Rightarrow> pyval" where
  "spec_fetch_outcome outcome =
     (case outcome of
        Raises e \<Rightarrow> PyNone
      | Response status_code txt body \<Rightarrow>
          (case body of
             Inl e \<Rightarrow> PyNone
           | Inr doc \<Rightarrow> if is_success status_code then doc else PyNone))"

text \<open>
  What the \<^verbatim>\<open>try\<close> block of \<^verbatim>\<open>get_alerts\<close> computes from the value \<open>data\<close> the fetch
  returned, the logging left out: \<open>Inl\<close> when the block raises. Lemma
  \<open>alerts_try_value\<close> proves that the block computes this.
\<close>

definition alerts_text :: "(pyval \<Rightarrow> string) \<Rightarrow> pyval \<Rightarrow> string result" where
  "alerts_text crepr data =
     (if \<not> truthy data then Inr ''Unable to fetch alerts or no alerts found.''
      else bind (py_contains data ''features'') (\<lambda>b.
             if \<not> b then Inr ''Unable to fetch alerts or no alerts found.''
             else bind (py_getitem data ''features'') (\<lambda>features.
                    if \<not> truthy features then Inr ''No active alerts for this state.''
                    else bind (bind (py_iter features) (map_result (format_alert crepr)))
                           (\<lambda>alerts. Inr (join separator alerts)))))"

text \<open>
  The same for \<^verbatim>\<open>get_forecast\<close>: \<open>data\<close> is what the first fetch returned and
  \<open>fetch2 u\<close> what the second returns when asked for \<open>u\<close>. Lemma \<open>forecast_try_value\<close>
  proves that the block computes this.
\<close>

definition forecast_text ::
  "(pyval \<Rightarrow> string) \<Rightarrow> pyval \<Rightarrow> (pyval \<Rightarrow> pyval) \<Rightarrow> string result" where
  "forecast_text crepr data fetch2 =
     (if \<not> truthy data then Inr ''Unable to fetch forecast data for this location.''
      else bind (bind (py_getitem data ''properties'') (\<lambda>props. py_getitem props ''forecast''))
             (\<lambda>forecast_url.
                if \<not> truthy (fetch2 forecast_url) then Inr ''Unable to fetch detailed forecast.''
                else bind (format_periods crepr (fetch2 forecast_url))
                       (\<lambda>forecasts. Inr (join separator forecasts))))"

text \<open>The fixed fields of a Log Record that the specification lists (section 3).\<close>

definition spec_fixed_fields :: "string list" where
  "spec_fixed_fields =
     [''timestamp'', ''level'', ''logger'', ''message'', ''file'', ''function'', ''process'',
      ''thread'', ''correlation_id'', ''request_id'', ''user_id'', ''environment'',
      ''app_version'', ''host'']"

text \<open>The two URLs the operations build.\<close>

definition alerts_url :: "string \<Rightarrow> pyval" where
  "alerts_url state = PyStr (NWS_API_BASE @ ''/alerts/active/area/'' @ state)"

definition points_url :: "string \<Rightarrow> string \<Rightarrow> pyval" where
  "points_url latitude longitude = PyStr (NWS_API_BASE @ ''/points/'' @ latitude @ '','' @ longitude)"

text \<open>
  A world to run the scenarios of the specification in: the clock counts milliseconds
  in microseconds, a span is printed with six decimals, the \<open>k\<close>-th UUID is numbered
  \<open>k\<close>. No scenario prints a list or a dict.
\<close>

definition micros6f :: "int \<Rightarrow> int \<Rightarrow> string" where
  "micros6f t0 t1 =
     (let d = t1 - t0; a = nat \<bar>d\<bar>; frac = dec_nat (a mod 1000000)
      in (if d < 0 then ''-'' else []) @ dec_nat (a div 1000000) @ ''.''
         @ replicate (6 - length frac) (CHR ''0'') @ frac)"

definition scenario_world :: "nat \<Rightarrow> (nat \<Rightarrow> pyval \<Rightarrow> http_outcome) \<Rightarrow> int world" where
  "scenario_world lvl net =
     \<lparr>threshold = lvl, uuid4 = (\<lambda>k. ''uuid-'' @ dec_nat k), now = (\<lambda>k. 1000 * int k),
      seconds6f = micros6f, http_get = net, container_repr = (\<lambda>v. ''[...]''),
      getpid = 4242, current_thread = ''MainThread''\<rparr>"

text \<open>The state after the module is loaded: nothing logged or requested, the defaults of
  the context variables drawn (lines 14 to 16).\<close>

definition initial_state :: "'t world \<Rightarrow> state" where
  "initial_state w =
     \<lparr>log = [], requests = [],
      ctx = \<lparr>correlation_id = uuid4 w 0, request_id = uuid4 w 1, user_id = ''unknown''\<rparr>,
      uuid_count = 2, now_count = 0\<rparr>"

text \<open>Networks for the scenarios: every GET has the same outcome, or the first GET has
  one outcome and the later ones another; a 200 answer carrying a document.\<close>

definition net_const :: "http_outcome \<Rightarrow> nat \<Rightarrow> pyval \<Rightarrow> http_outcome" where
  "net_const outcome k url = outcome"

definition net_two :: "http_outcome \<Rightarrow> http_outcome \<Rightarrow> nat \<Rightarrow> pyval \<Rightarrow> http_outcome" where
  "net_two first second k url = (if k = 0 then first else second)"

definition ok :: "pyval \<Rightarrow> http_outcome" where
  "ok doc = Response 200 ''OK'' (Inr doc)"

text \<open>One fetch, one \<^verbatim>\<open>get_alerts\<close> and one \<^verbatim>\<open>get_forecast\<close> in a freshly loaded module,
  at a given threshold and network.\<close>

definition run_request :: "nat \<Rightarrow> http_outcome \<Rightarrow> pyval \<times> state" where
  "run_request lvl outcome =
     make_nws_request (scenario_world lvl (net_const outcome)) (alerts_url ''CA'')
       (initial_state (scenario_world lvl (net_const outcome)))"

definition run_alerts :: "http_outcome \<Rightarrow> string \<times> state" where
  "run_alerts outcome =
     get_alerts (scenario_world INFO (net_const outcome)) ''CA''
       (initial_state (scenario_world INFO (net_const outcome)))"

definition run_forecast :: "http_outcome \<Rightarrow> http_outcome \<Rightarrow> string \<times> state" where
  "run_forecast first second =
     get_forecast (scenario_world INFO (net_two first second)) ''0.0'' ''0.0''
       (initial_state (scenario_world INFO (net_two first second)))"

text \<open>The feature of the specification's scenario, and the block \<^verbatim>\<open>format_alert\<close>
  makes of it.\<close>

definition flood_feature :: pyval where
  "flood_feature = PyDict [(''properties'', PyDict [(''event'', PyStr ''Flood Warning'')])]"

definition flood_block :: string where
  "flood_block = [CHR 0x0A] @ ''Event: Flood Warning'' @ [CHR 0x0A]
      @ ''Area: Unknown'' @ [CHR 0x0A]
      @ ''Severity: Unknown'' @ [CHR 0x0A]
      @ ''Description: No description available'' @ [CHR 0x0A]
      @ ''Instructions: No specific instructions provided'' @ [CHR 0x0A]"

text \<open>A points document, a forecast document with given periods, a period and the block
  the loop makes of it, for the scenarios of \<^verbatim>\<open>get_forecast\<close>.\<close>

definition example_period :: "string \<Rightarrow> pyval" where
  "example_period pname =
     PyDict [(''name'', PyStr pname), (''temperature'', PyInt 70), (''temperatureUnit'', PyStr ''F''),
             (''windSpeed'', PyStr ''5 mph''), (''windDirection'', PyStr ''NW''),
             (''detailedForecast'', PyStr ''Sunny.'')]"

definition example_block :: "string \<Rightarrow> string" where
  "example_block pname =
     [CHR 0x0A] @ pname @ '':'' @ [CHR 0x0A]
     @ ''Temperature: 70'' @ [CHR 0xC3, CHR 0x82, CHR 0xC2, CHR 0xB0] @ ''F'' @ [CHR 0x0A]
     @ ''Wind: 5 mph NW'' @ [CHR 0x0A]
     @ ''Forecast: Sunny.'' @ [CHR 0x0A]"

definition example_points :: pyval where
  "example_points = PyDict [(''properties'', PyDict [(''forecast'', PyStr ''https://api.weather.gov/gridpoints/TOP/31,80/forecast'')])]"

definition example_forecast :: "pyval list \<Rightarrow> pyval" where
  "example_forecast periods = PyDict [(''properties'', PyDict [(''periods'', PyList periods)])]"

text \<open>A log record, a context and a traceback text for the scenarios of the formatter.\<close>

definition example_record :: LogRecord where
  "example_record =
     \<lparr>levelname = ''INFO'', levelno = 20, name = ''WeatherService'',
      message = ''Getting alerts for state: CA'', filename = ''weather.py'', lineno = 130,
      funcName = ''get_alerts'', process = 4242, threadName = ''MainThread'',
      exc_info = None, extra = [(''correlation_id'', ''uuid-2'')]\<rparr>"

definition example_context :: call_context where
  "example_context = \<lparr>correlation_id = ''uuid-2'', request_id = ''uuid-1'', user_id = ''unknown''\<rparr>"

definition example_trace :: "(http_exn + exn) \<Rightarrow> string" where
  "example_trace e = ''Traceback (most recent call last): ...''"

section \<open>What a fetch returns and requests\<close>

lemma bind_eq_Inr: "bind m f = Inr y \<longleftrightarrow> (\<exists>x. m = Inr x \<and> f x = Inr y)"
  by (cases m) auto

lemma requests_emit [simp]: "requests (emit w lvl lvlname line func msg exc ex s) = requests s"
  by (simp add: emit_def)

lemmas logger_defs =
  logger_debug_def logger_info_def logger_warning_def logger_error_def logger_exception_def

lemma requests_read_clock [simp]: "requests (snd (read_clock w s)) = requests s"
  by (simp add: read_clock_def)

lemma requests_fresh_uuid [simp]: "requests (snd (fresh_uuid w s)) = requests s"
  by (simp add: fresh_uuid_def)

lemma log_emit:
  "log (emit w lvl lvlname line func msg exc ex s) =
     (if threshold w \<le> lvl
      then log s @
             [(\<lparr>levelname = lvlname, levelno = lvl, name = ''WeatherService'', message = msg,
                filename = ''weather.py'', lineno = line, funcName = func,
                process = getpid w, threadName = current_thread w,
                exc_info = exc, extra = ex\<rparr>, ctx s)]
      else log s)"
  by (simp add: emit_def)

lemma level_simps: "DEBUG < INFO" "INFO < WARNING" "WARNING < ERROR" "DEBUG < ERROR" "INFO < ERROR"
  by (simp_all add: DEBUG_def INFO_def WARNING_def ERROR_def)

lemmas request_defs =
  make_nws_request_def request_try_def fresh_uuid_def read_clock_def client_get_def Let_def

lemmas scenario_defs =
  scenario_world_def initial_state_def net_const_def net_two_def ok_def is_success_def
  DEBUG_def INFO_def WARNING_def ERROR_def

lemma make_nws_request_value:
  "fst (make_nws_request w url s) = spec_fetch_outcome (http_get w (length (requests s)) url)"
  by (simp add: make_nws_request_def request_try_def spec_fetch_outcome_def fresh_uuid_def
        read_clock_def client_get_def logger_defs Let_def
      split: http_outcome.splits sum.splits http_exn.splits prod.splits)

lemma make_nws_request_requests:
  "requests (snd (make_nws_request w url s)) = requests s @ [url]"
  by (simp add: make_nws_request_def request_try_def fresh_uuid_def read_clock_def client_get_def
        logger_defs Let_def
      split: http_outcome.splits sum.splits http_exn.splits prod.splits)

section \<open>The text an operation returns, from what its fetches returned\<close>

lemma alerts_try_value:
  "fst (alerts_try w state c t s) =
     alerts_text (container_repr w)
       (spec_fetch_outcome (http_get w (length (requests s)) (alerts_url state)))"
proof -
  define data where
    "data = spec_fetch_outcome (http_get w (length (requests s)) (alerts_url state))"
  have v: "fst (make_nws_request w (PyStr (NWS_API_BASE @ ''/alerts/active/area/'' @ state)) s') = data"
    if "requests s' = requests s" for s'
    using that by (simp add: make_nws_request_value data_def alerts_url_def)
  have "fst (alerts_try w state c t s) = alerts_text (container_repr w) data"
    unfolding alerts_try_def alerts_text_def Let_def split_beta
    apply (simp only: v logger_info_def requests_emit if_distrib [of fst]
             sum.case_distrib [of fst] fst_conv)
    apply (cases "py_contains data ''features''"; cases "py_getitem data ''features''")
       apply (simp_all split: sum.splits)
    done
  then show ?thesis by (simp only: data_def)
qed

lemma get_alerts_value:
  "fst (get_alerts w state s) =
     (case alerts_text (container_repr w)
             (spec_fetch_outcome (http_get w (length (requests s)) (alerts_url state))) of
        Inl e \<Rightarrow> ''An error occurred while fetching alerts.''
      | Inr txt \<Rightarrow> txt)"
  by (simp add: get_alerts_def Let_def split_beta alerts_try_value split: sum.splits)

lemma forecast_try_value:
  "fst (forecast_try w latitude longitude c t s) =
     forecast_text (container_repr w)
       (spec_fetch_outcome (http_get w (length (requests s)) (points_url latitude longitude)))
       (\<lambda>u. spec_fetch_outcome (http_get w (Suc (length (requests s))) u))"
proof -
  define data where
    "data = spec_fetch_outcome (http_get w (length (requests s)) (points_url latitude longitude))"
  define fetch2 where
    "fetch2 = (\<lambda>u. spec_fetch_outcome (http_get w (Suc (length (requests s))) u))"
  have v: "fst (make_nws_request w
                 (PyStr (NWS_API_BASE @ ''/points/'' @ latitude @ '','' @ longitude)) s') = data"
    if "requests s' = requests s" for s'
    using that by (simp add: make_nws_request_value data_def points_url_def)
  have v2: "fst (make_nws_request w u (snd (make_nws_request w u' s'))) = fetch2 u"
    if "requests s' = requests s" for s' u u'
    using that by (simp add: make_nws_request_value make_nws_request_requests fetch2_def)
  have "fst (forecast_try w latitude longitude c t s) = forecast_text (container_repr w) data fetch2"
    unfolding forecast_try_def forecast_text_def Let_def split_beta
    apply (simp only: v v2 logger_info_def requests_emit if_distrib [of fst]
             sum.case_distrib [of fst] fst_conv)
    apply (cases "bind (py_getitem data ''properties'') (\<lambda>props. py_getitem props ''forecast'')")
     apply (simp_all split: sum.splits)
    done
  then show ?thesis by (simp only: data_def fetch2_def)
qed

lemma get_forecast_value:
  "fst (get_forecast w latitude longitude s) =
     (case forecast_text (container_repr w)
             (spec_fetch_outcome (http_get w (length (requests s)) (points_url latitude longitude)))
             (\<lambda>u. spec_fetch_outcome (http_get w (Suc (length (requests s))) u)) of
        Inl e \<Rightarrow> ''An error occurred while fetching forecast.''
      | Inr txt \<Rightarrow> txt)"
  by (simp add: get_forecast_def Let_def split_beta forecast_try_value split: sum.splits)

lemma forecast_try_requests_absent:
  assumes "\<not> truthy (spec_fetch_outcome
                       (http_get w (length (requests s)) (points_url latitude longitude)))"
  shows "requests (snd (forecast_try w latitude longitude c t s)) =
           requests s @ [points_url latitude longitude]"
proof -
  have v: "fst (make_nws_request w
                 (PyStr (NWS_API_BASE @ ''/points/'' @ latitude @ '','' @ longitude)) s')
       = spec_fetch_outcome (http_get w (length (requests s))
           (PyStr (NWS_API_BASE @ ''/points/'' @ latitude @ '','' @ longitude)))"
    if "requests s' = requests s" for s'
    using that by (simp add: make_nws_request_value)
  have a: "\<not> truthy (spec_fetch_outcome (http_get w (length (requests s))
               (PyStr (NWS_API_BASE @ ''/points/'' @ latitude @ '','' @ longitude))))"
    using assms unfolding points_url_def .
  show ?thesis
    unfolding forecast_try_def Let_def split_beta
    by (simp only: v logger_info_def logger_warning_def requests_emit a
          not_False_eq_True if_True snd_conv make_nws_request_requests points_url_def)
qed

lemma get_forecast_requests_absent:
  assumes "\<not> truthy (spec_fetch_outcome
                       (http_get w (length (requests s)) (points_url latitude longitude)))"
  shows "requests (snd (get_forecast w latitude longitude s)) =
           requests s @ [points_url latitude longitude]"
proof -
  have "fst (forecast_try w latitude longitude c t s') =
          Inr ''Unable to fetch forecast data for this location.''"
    if "requests s' = requests s" for s' c t
    using that assms by (simp add: forecast_try_value forecast_text_def)
  moreover have "requests (snd (forecast_try w latitude longitude c t s')) =
                   requests s @ [points_url latitude longitude]"
    if "requests s' = requests s" for s' c t
    using forecast_try_requests_absent [of w s' latitude longitude c t] that assms by simp
  ultimately show ?thesis
    by (simp add: get_forecast_def Let_def split_beta)
qed

section \<open>Lists of results, dicts, scenarios\<close>

lemma map_result_length: "map_result f xs = Inr ys \<Longrightarrow> length ys = length xs"
  by (induction xs arbitrary: ys) (auto simp add: bind_eq_Inr)

lemma map_result_map: "map_result f xs = Inr ys \<Longrightarrow> map f xs = map Inr ys"
  by (induction xs arbitrary: ys) (auto simp add: bind_eq_Inr)

lemma length_five:
  "length xs = 5 \<Longrightarrow> \<exists>b1 b2 b3 b4 b5. xs = [b1, b2, b3, b4, b5]"
  by (auto simp add: numeral_eq_Suc length_Suc_conv)

lemma join_five:
  "join sep [b1, b2, b3, b4, b5] = b1 @ sep @ b2 @ sep @ b3 @ sep @ b4 @ sep @ b5"
  by simp

lemma map_result_fails:
  "x \<in> set xs \<Longrightarrow> f x = Inl e \<Longrightarrow> \<exists>e'. map_result f xs = Inl e'"
proof (induction xs)
  case Nil
  then show ?case by simp
next
  case (Cons y ys)
  show ?case
  proof (cases "f y")
    case (Inl a)
    then show ?thesis by simp
  next
    case (Inr b)
    show ?thesis
    proof (cases "x = y")
      case True
      with Cons.prems Inr show ?thesis by simp
    next
      case False
      with Cons obtain e' where "map_result f ys = Inl e'" by auto
      with Inr show ?thesis by simp
    qed
  qed
qed

lemma format_alert_without_properties:
  "py_getitem feature ''properties'' = Inl e \<Longrightarrow> format_alert crepr feature = Inl e"
  by (simp add: format_alert_def)

lemma format_alert_with_properties:
  "py_getitem feature ''properties'' = Inr (PyDict props) \<Longrightarrow> \<exists>block. format_alert crepr feature = Inr block"
  by (simp add: format_alert_def split: option.splits)

lemma key_in_dict: "k \<in> fst ` set kvs \<longleftrightarrow> map_of kvs k \<noteq> None"
  by (simp add: map_of_eq_None_iff)

lemma dict_nonempty: "map_of kvs k = Some v \<Longrightarrow> kvs \<noteq> []"
  by auto

lemmas py_defs = spec_fetch_outcome_def format_alert_def format_period_def format_periods_def
  separator_def alerts_url_def points_url_def NWS_API_BASE_def

lemma scenario_fetch:
  "spec_fetch_outcome
     (http_get (scenario_world lvl (net_const outcome))
        (length (requests (initial_state (scenario_world lvl (net_const outcome))))) url)
   = spec_fetch_outcome outcome"
  by (simp add: scenario_world_def initial_state_def net_const_def)

lemma scenario_fetch_two:
  "spec_fetch_outcome
     (http_get (scenario_world lvl (net_two first second))
        (length (requests (initial_state (scenario_world lvl (net_two first second))))) url)
   = spec_fetch_outcome first"
  "spec_fetch_outcome
     (http_get (scenario_world lvl (net_two first second))
        (Suc (length (requests (initial_state (scenario_world lvl (net_two first second)))))) url)
   = spec_fetch_outcome second"
  by (simp_all add: scenario_world_def initial_state_def net_two_def)

lemma dec_int_70: "dec_int 70 = ''70''"
  by code_simp

lemma format_example_period: "format_period crepr (example_period pname) = Inr (example_block pname)"
  by (simp add: format_period_def example_period_def example_block_def dec_int_70)

section \<open>The fetcher: what it returns\<close>

text \<open>
  C1. Whatever the GET does, \<^verbatim>\<open>make_nws_request\<close> returns a value: the decoded document
  when the answer has a 2xx status and its body decodes, and \<^verbatim>\<open>None\<close> when the status is
  not 2xx, when the GET times out, when it raises anything else, and when the body of a
  2xx answer does not decode. The function is total: each handler ends in a
  \<^verbatim>\<open>return\<close>, and the last one catches every exception the first two leave.
\<close>

theorem make_nws_request_value_or_none:
  "(http_get w (length (requests s)) url = Response status_code txt (Inr doc) \<and> is_success status_code
      \<longrightarrow> fst (make_nws_request w url s) = doc)
   \<and> (http_get w (length (requests s)) url = Response status_code txt body \<and> \<not> is_success status_code
      \<longrightarrow> fst (make_nws_request w url s) = PyNone)
   \<and> (http_get w (length (requests s)) url = Raises (TimeoutException txt)
      \<longrightarrow> fst (make_nws_request w url s) = PyNone)
   \<and> (http_get w (length (requests s)) url = Raises e
      \<longrightarrow> fst (make_nws_request w url s) = PyNone)
   \<and> (http_get w (length (requests s)) url = Response status_code txt (Inl e)
      \<longrightarrow> fst (make_nws_request w url s) = PyNone)"
  by (auto simp add: make_nws_request_value spec_fetch_outcome_def split: sum.splits)

theorem make_nws_request_value_or_none_witness:
  "fst (run_request INFO (ok (PyDict [(''features'', PyList [])]))) = PyDict [(''features'', PyList [])]
   \<and> fst (run_request INFO (Response 404 ''Not Found'' (Inr (PyDict [])))) = PyNone
   \<and> fst (run_request INFO (Raises (TimeoutException ''timed out''))) = PyNone
   \<and> fst (run_request INFO (Raises (OtherException ''connection refused''))) = PyNone
   \<and> fst (run_request INFO (Response 200 ''OK'' (Inl (OtherException ''Expecting value'')))) = PyNone"
proof -
  let ?go = "\<lambda>outcome. scenario_world INFO (net_const outcome)"
  note th = make_nws_request_value_or_none
  show ?thesis
    unfolding run_request_def
    using
      th [of "?go (ok (PyDict [(''features'', PyList [])]))" "initial_state (?go (ok (PyDict [(''features'', PyList [])])))"
             "alerts_url ''CA''" 200 "''OK''" "PyDict [(''features'', PyList [])]"]
      th [of "?go (Response 404 ''Not Found'' (Inr (PyDict [])))"
             "initial_state (?go (Response 404 ''Not Found'' (Inr (PyDict []))))"
             "alerts_url ''CA''" 404 "''Not Found''" _ "Inr (PyDict [])"]
      th [of "?go (Raises (TimeoutException ''timed out''))"
             "initial_state (?go (Raises (TimeoutException ''timed out'')))"
             "alerts_url ''CA''" _ "''timed out''"]
      th [of "?go (Raises (OtherException ''connection refused''))"
             "initial_state (?go (Raises (OtherException ''connection refused'')))"
             "alerts_url ''CA''" _ _ _ _ "OtherException ''connection refused''"]
      th [of "?go (Response 200 ''OK'' (Inl (OtherException ''Expecting value'')))"
             "initial_state (?go (Response 200 ''OK'' (Inl (OtherException ''Expecting value''))))"
             "alerts_url ''CA''" 200 "''OK''" _ _ "OtherException ''Expecting value''"]
    by (simp add: scenario_defs)
qed

section \<open>The fetcher: how many records it logs\<close>

text \<open>
  C2, as stated, fails. A fetch logs two records when the body of a 2xx answer does not
  decode (the record of the success, line 88, then the record of the failure, line
  103), and two when the threshold is \<^verbatim>\<open>DEBUG\<close> (line 83 then the outcome); at threshold
  \<^verbatim>\<open>WARNING\<close> a successful fetch logs none. The three thresholds are those of an unset
  \<^verbatim>\<open>LOG_LEVEL\<close>, of \<^verbatim>\<open>LOG_LEVEL=DEBUG\<close> and of \<^verbatim>\<open>LOG_LEVEL=WARNING\<close>.
\<close>

theorem make_nws_request_log_count_counterexample:
  "length (log (snd (run_request INFO (Response 200 ''OK'' (Inl (OtherException ''Expecting value'')))))) = 2
   \<and> length (log (snd (run_request DEBUG (Raises (TimeoutException ''timed out''))))) = 2
   \<and> length (log (snd (run_request WARNING (ok (PyDict [(''features'', PyList [])]))))) = 0
   \<and> effective_level Map.empty WARNING = Some INFO
   \<and> effective_level [''LOG_LEVEL'' \<mapsto> ''DEBUG''] WARNING = Some DEBUG
   \<and> effective_level [''LOG_LEVEL'' \<mapsto> ''WARNING''] WARNING = Some WARNING"
  by (simp add: run_request_def request_defs logger_defs log_emit scenario_defs
        effective_level_def nameToLevel_def getenv_def)

text \<open>
  C2, amended. With the threshold above \<^verbatim>\<open>DEBUG\<close> and at most \<^verbatim>\<open>INFO\<close> (\<^verbatim>\<open>INFO\<close> is the
  default), a fetch adds exactly one record to the log when the GET raises, when it is
  answered with a status that is not 2xx, and when it is answered 2xx with a body that
  decodes.
\<close>

theorem make_nws_request_one_record:
  assumes "DEBUG < threshold w" and "threshold w \<le> INFO"
    and "\<forall>status_code txt e.
           http_get w (length (requests s)) url = Response status_code txt (Inl e)
             \<longrightarrow> \<not> is_success status_code"
  shows "\<exists>r. log (snd (make_nws_request w url s)) = log s @ [r]"
proof -
  have lv: "\<not> threshold w \<le> DEBUG" "threshold w \<le> INFO" "threshold w \<le> ERROR"
    using assms(1,2) level_simps by auto
  show ?thesis
  proof (cases "http_get w (length (requests s)) url")
    case (Raises e)
    then show ?thesis
      by (cases e) (simp_all add: request_defs logger_defs log_emit lv)
  next
    case (Response status_code reason body)
    show ?thesis
    proof (cases "is_success status_code")
      case True
      with Response assms(3) obtain doc where "body = Inr doc"
        by (cases body) auto
      with Response True show ?thesis
        by (simp add: request_defs logger_defs log_emit lv)
    next
      case False
      with Response show ?thesis
        by (simp add: request_defs logger_defs log_emit lv)
    qed
  qed
qed

theorem make_nws_request_one_record_witness:
  "length (log (snd (run_request INFO (ok (PyDict [(''features'', PyList [])]))))) = 1
   \<and> length (log (snd (run_request INFO (Response 404 ''Not Found'' (Inr (PyDict [])))))) = 1"
proof -
  let ?go = "\<lambda>outcome. scenario_world INFO (net_const outcome)"
  have "\<exists>r. log (snd (run_request INFO outcome)) = [r]"
    if "\<forall>status_code txt e. outcome = Response status_code txt (Inl e) \<longrightarrow> \<not> is_success status_code"
    for outcome
    unfolding run_request_def
    using make_nws_request_one_record [of "?go outcome" "initial_state (?go outcome)" "alerts_url ''CA''"] that
    by (simp add: scenario_world_def initial_state_def net_const_def DEBUG_def INFO_def)
  from this [of "ok (PyDict [(''features'', PyList [])])"]
       this [of "Response 404 ''Not Found'' (Inr (PyDict []))"]
  show ?thesis
    by (auto simp add: ok_def is_success_def)
qed

section \<open>The outcomes of \<^verbatim>\<open>get_alerts\<close>\<close>

text \<open>
  C3, as stated, fails: its last case, every payload with a non-empty list of features,
  includes a list with a feature that \<^verbatim>\<open>format_alert\<close> cannot format. For the payload
  \<^verbatim>\<open>{"features": [{}]}\<close> the lookup of \<^verbatim>\<open>"properties"\<close> raises and \<^verbatim>\<open>get_alerts\<close> returns
  the text of its handler, not features formatted and joined.
\<close>

theorem get_alerts_malformed_feature_counterexample:
  "fst (run_alerts (ok (PyDict [(''features'', PyList [PyDict []])]))) = ''An error occurred while fetching alerts.''
   \<and> format_alert (\<lambda>v. ''[...]'') (PyDict []) = Inl (KeyError ''properties'')"
  by (simp add: run_alerts_def get_alerts_value alerts_text_def scenario_defs py_defs)

text \<open>
  C3, amended. With \<open>data\<close> the value the fetch returns: when \<open>data\<close> is \<^verbatim>\<open>None\<close> or a
  dict without the key \<^verbatim>\<open>"features"\<close>, \<^verbatim>\<open>get_alerts\<close> returns "Unable to fetch alerts or
  no alerts found."; when the features are the empty list, "No active alerts for this
  state."; and when they are a non-empty list each member of which \<^verbatim>\<open>format_alert\<close>
  formats, the blocks joined with the separator line.
\<close>

theorem get_alerts_three_outcomes:
  assumes "spec_fetch_outcome (http_get w (length (requests s)) (alerts_url state)) = data"
  shows "(data = PyNone \<or> (\<exists>kvs. data = PyDict kvs \<and> map_of kvs ''features'' = None)
            \<longrightarrow> fst (get_alerts w state s) = ''Unable to fetch alerts or no alerts found.'')
       \<and> ((\<exists>kvs. data = PyDict kvs \<and> map_of kvs ''features'' = Some (PyList []))
            \<longrightarrow> fst (get_alerts w state s) = ''No active alerts for this state.'')
       \<and> (\<forall>kvs features alerts.
             data = PyDict kvs \<and> map_of kvs ''features'' = Some (PyList features) \<and> features \<noteq> []
               \<and> map_result (format_alert (container_repr w)) features = Inr alerts
            \<longrightarrow> fst (get_alerts w state s) = join separator alerts)"
proof -
  note v = get_alerts_value [of w state s, unfolded assms]
  have 1: "fst (get_alerts w state s) = ''Unable to fetch alerts or no alerts found.''"
    if "data = PyNone"
    using that by (simp add: v alerts_text_def)
  have 2: "fst (get_alerts w state s) = ''Unable to fetch alerts or no alerts found.''"
    if "data = PyDict kvs" "map_of kvs ''features'' = None" for kvs
    using that by (simp add: v alerts_text_def key_in_dict)
  have 3: "fst (get_alerts w state s) = ''No active alerts for this state.''"
    if "data = PyDict kvs" "map_of kvs ''features'' = Some (PyList [])" for kvs
    using that by (simp add: v alerts_text_def key_in_dict dict_nonempty)
  have 4: "fst (get_alerts w state s) = join separator alerts"
    if "data = PyDict kvs" "map_of kvs ''features'' = Some (PyList features)" "features \<noteq> []"
       "map_result (format_alert (container_repr w)) features = Inr alerts" for kvs features alerts
    using that by (simp add: v alerts_text_def key_in_dict dict_nonempty)
  from 1 2 3 4 show ?thesis by blast
qed

theorem get_alerts_three_outcomes_witness:
  "fst (run_alerts (Response 404 ''Not Found'' (Inr (PyDict [])))) = ''Unable to fetch alerts or no alerts found.''
   \<and> fst (run_alerts (ok (PyDict [(''type'', PyStr ''FeatureCollection'')]))) = ''Unable to fetch alerts or no alerts found.''
   \<and> fst (run_alerts (ok (PyDict [(''features'', PyList [])]))) = ''No active alerts for this state.''
   \<and> fst (run_alerts (ok (PyDict [(''features'', PyList [flood_feature, flood_feature])])))
       = flood_block @ [CHR 0x0A] @ ''---'' @ [CHR 0x0A] @ flood_block"
proof -
  note th = get_alerts_three_outcomes [where state = "''CA''", OF scenario_fetch [where lvl = INFO],
                folded run_alerts_def]
  have 1: "fst (run_alerts (Response 404 ''Not Found'' (Inr (PyDict [])))) = ''Unable to fetch alerts or no alerts found.''"
    using th [of "Response 404 ''Not Found'' (Inr (PyDict []))"]
    by (simp add: spec_fetch_outcome_def is_success_def)
  have 2: "fst (run_alerts (ok (PyDict [(''type'', PyStr ''FeatureCollection'')]))) = ''Unable to fetch alerts or no alerts found.''"
    using th [of "ok (PyDict [(''type'', PyStr ''FeatureCollection'')])"]
    by (simp add: spec_fetch_outcome_def is_success_def ok_def)
  have 3: "fst (run_alerts (ok (PyDict [(''features'', PyList [])]))) = ''No active alerts for this state.''"
    using th [of "ok (PyDict [(''features'', PyList [])])"]
    by (simp add: spec_fetch_outcome_def is_success_def ok_def)
  have 4: "fst (run_alerts (ok (PyDict [(''features'', PyList [flood_feature, flood_feature])])))
       = join separator [flood_block, flood_block]"
    using th [of "ok (PyDict [(''features'', PyList [flood_feature, flood_feature])])",
                 THEN conjunct2, THEN conjunct2, rule_format,
                 of "[(''features'', PyList [flood_feature, flood_feature])]"
                    "[flood_feature, flood_feature]" "[flood_block, flood_block]"]
    by (simp add: spec_fetch_outcome_def is_success_def ok_def format_alert_def flood_feature_def
          flood_block_def scenario_world_def)
  from 1 2 3 4 show ?thesis by (simp add: separator_def)
qed

section \<open>A feature without properties\<close>

text \<open>
  C10. When the payload is a dict whose features are a list with a member that cannot
  be subscripted by \<^verbatim>\<open>"properties"\<close> (a dict without the key, or no dict at all),
  \<^verbatim>\<open>get_alerts\<close> returns "An error occurred while fetching alerts.", not the "Unable to
  fetch" text; a feature whose properties are a dict is formatted whatever keys the
  properties lack.
\<close>

theorem get_alerts_feature_without_properties:
  assumes "spec_fetch_outcome (http_get w (length (requests s)) (alerts_url state)) = PyDict kvs"
    and "map_of kvs ''features'' = Some (PyList features)"
    and "feature \<in> set features"
    and "py_getitem feature ''properties'' = Inl e"
  shows "fst (get_alerts w state s) = ''An error occurred while fetching alerts.''
       \<and> fst (get_alerts w state s) \<noteq> ''Unable to fetch alerts or no alerts found.''
       \<and> (\<forall>fkvs props. map_of fkvs ''properties'' = Some (PyDict props)
             \<longrightarrow> (\<exists>block. format_alert (container_repr w) (PyDict fkvs) = Inr block))"
proof -
  from assms(3,4) obtain e' where "map_result (format_alert (container_repr w)) features = Inl e'"
    using map_result_fails [of feature features "format_alert (container_repr w)" e]
    by (auto simp add: format_alert_without_properties)
  moreover from assms(3) have "features \<noteq> []" by auto
  ultimately have "fst (get_alerts w state s) = ''An error occurred while fetching alerts.''"
    using assms(1,2)
    by (simp add: get_alerts_value alerts_text_def key_in_dict dict_nonempty)
  then show ?thesis
    by (simp add: format_alert_with_properties)
qed


theorem get_alerts_feature_without_properties_witness:
  "fst (run_alerts (ok (PyDict [(''features'', PyList [flood_feature, PyDict [(''id'', PyStr ''x'')]])]))) =
      ''An error occurred while fetching alerts.''
   \<and> (\<exists>block. format_alert (\<lambda>v. ''[...]'') (PyDict [(''properties'', PyDict [])]) = Inr block)"
proof -
  let ?out = "ok (PyDict [(''features'', PyList [flood_feature, PyDict [(''id'', PyStr ''x'')]])])"
  let ?w = "scenario_world INFO (net_const ?out)"
  show ?thesis
    unfolding run_alerts_def
    using get_alerts_feature_without_properties [of ?w "initial_state ?w" "''CA''"
       "[(''features'', PyList [flood_feature, PyDict [(''id'', PyStr ''x'')]])]"
       "[flood_feature, PyDict [(''id'', PyStr ''x'')]]" "PyDict [(''id'', PyStr ''x'')]" "KeyError ''properties''"]
    by (simp add: scenario_defs spec_fetch_outcome_def)
qed


section \<open>The forecast: five periods at most\<close>

text \<open>
  C4. When both fetches of \<^verbatim>\<open>get_forecast\<close> succeed, the forecast document holds a list
  of more than five periods and the first five can be formatted, there are exactly five
  blocks, those of the first five periods in their order, and the operation returns
  the first block, a line feed, three hyphens, a line feed, the second block and so on
  to the fifth. Nothing is asked of the periods after the fifth, and nothing of them
  reaches the result.
\<close>

theorem get_forecast_first_five:
  assumes "spec_fetch_outcome (http_get w (length (requests s)) (points_url latitude longitude)) = data"
    and "py_getitem data ''properties'' = Inr props"
    and "py_getitem props ''forecast'' = Inr forecast_url"
    and "spec_fetch_outcome (http_get w (Suc (length (requests s))) forecast_url) = forecast_data"
    and "py_getitem forecast_data ''properties'' = Inr fprops"
    and "py_getitem fprops ''periods'' = Inr (PyList periods)"
    and "5 < length periods"
    and "map_result (format_period (container_repr w)) (take 5 periods) = Inr forecasts"
  shows "\<exists>b1 b2 b3 b4 b5.
           forecasts = [b1, b2, b3, b4, b5]
         \<and> map (format_period (container_repr w)) (take 5 periods) = [Inr b1, Inr b2, Inr b3, Inr b4, Inr b5]
         \<and> fst (get_forecast w latitude longitude s) =
             b1 @ [CHR 0x0A] @ ''---'' @ [CHR 0x0A] @ b2 @ [CHR 0x0A] @ ''---'' @ [CHR 0x0A] @ b3
                @ [CHR 0x0A] @ ''---'' @ [CHR 0x0A] @ b4 @ [CHR 0x0A] @ ''---'' @ [CHR 0x0A] @ b5"
proof -
  have t1: "truthy data"
    using assms(2) by (cases data) (auto split: option.splits)
  have t2: "truthy forecast_data"
    using assms(5) by (cases forecast_data) (auto split: option.splits)
  have "format_periods (container_repr w) forecast_data = Inr forecasts"
    using assms(5,6,8) by (simp add: format_periods_def)
  then have r: "fst (get_forecast w latitude longitude s) = join separator forecasts"
    using assms(1,2,3,4) t1 t2 by (simp add: get_forecast_value forecast_text_def)
  have "length forecasts = 5"
    using map_result_length [OF assms(8)] assms(7) by simp
  then obtain b1 b2 b3 b4 b5 where f: "forecasts = [b1, b2, b3, b4, b5]"
    using length_five by blast
  have m: "map (format_period (container_repr w)) (take 5 periods) = [Inr b1, Inr b2, Inr b3, Inr b4, Inr b5]"
    using map_result_map [OF assms(8)] f by simp
  have j: "fst (get_forecast w latitude longitude s) =
             b1 @ [CHR 0x0A] @ ''---'' @ [CHR 0x0A] @ b2 @ [CHR 0x0A] @ ''---'' @ [CHR 0x0A] @ b3
                @ [CHR 0x0A] @ ''---'' @ [CHR 0x0A] @ b4 @ [CHR 0x0A] @ ''---'' @ [CHR 0x0A] @ b5"
    unfolding r f join_five by (simp add: separator_def)
  show ?thesis
    apply (rule exI [of _ b1], rule exI [of _ b2], rule exI [of _ b3], rule exI [of _ b4],
           rule exI [of _ b5])
    apply (rule conjI)
     apply (rule f)
    apply (rule conjI)
     apply (rule m)
    apply (rule j)
    done
qed

theorem get_forecast_first_five_witness:
  "fst (run_forecast (ok example_points)
          (ok (example_forecast (map example_period [''Mon'', ''Tue'', ''Wed'', ''Thu'', ''Fri'', ''Sat'', ''Sun'']))))
   = example_block ''Mon'' @ [CHR 0x0A] @ ''---'' @ [CHR 0x0A]
     @ example_block ''Tue'' @ [CHR 0x0A] @ ''---'' @ [CHR 0x0A]
     @ example_block ''Wed'' @ [CHR 0x0A] @ ''---'' @ [CHR 0x0A]
     @ example_block ''Thu'' @ [CHR 0x0A] @ ''---'' @ [CHR 0x0A]
     @ example_block ''Fri''
   \<and> example_block ''Mon'' =
       [CHR 0x0A] @ ''Mon:'' @ [CHR 0x0A]
       @ ''Temperature: 70'' @ [CHR 0xC3, CHR 0x82, CHR 0xC2, CHR 0xB0] @ ''F'' @ [CHR 0x0A]
       @ ''Wind: 5 mph NW'' @ [CHR 0x0A]
       @ ''Forecast: Sunny.'' @ [CHR 0x0A]"
proof -
  let ?periods = "map example_period [''Mon'', ''Tue'', ''Wed'', ''Thu'', ''Fri'', ''Sat'', ''Sun'']"
  have 1: "spec_fetch_outcome (ok example_points) = example_points"
    and 4: "spec_fetch_outcome (ok (example_forecast ?periods)) = example_forecast ?periods"
    by (simp_all add: spec_fetch_outcome_def ok_def is_success_def)
  have 2: "py_getitem example_points ''properties'' = Inr (PyDict [(''forecast'', PyStr ''https://api.weather.gov/gridpoints/TOP/31,80/forecast'')])"
    and 3: "py_getitem (PyDict [(''forecast'', PyStr ''https://api.weather.gov/gridpoints/TOP/31,80/forecast'')]) ''forecast''
             = Inr (PyStr ''https://api.weather.gov/gridpoints/TOP/31,80/forecast'')"
    and 5: "py_getitem (example_forecast ?periods) ''properties'' = Inr (PyDict [(''periods'', PyList ?periods)])"
    and 6: "py_getitem (PyDict [(''periods'', PyList ?periods)]) ''periods'' = Inr (PyList ?periods)"
    by (simp_all add: example_points_def example_forecast_def)
  have 7: "5 < length ?periods" by simp
  have 8: "map_result (format_period crepr) (take 5 ?periods)
             = Inr (map example_block [''Mon'', ''Tue'', ''Wed'', ''Thu'', ''Fri''])" for crepr
    by (simp add: format_example_period)
  note f1 = scenario_fetch_two(1) [where lvl = INFO and first = "ok example_points", unfolded 1]
  note f2 = scenario_fetch_two(2) [where lvl = INFO and second = "ok (example_forecast ?periods)", unfolded 4]
  from get_forecast_first_five [OF f1 2 3 f2 5 6 7 8]
  show ?thesis
    by (auto simp add: run_forecast_def format_example_period example_block_def)
qed

section \<open>The forecast: no second fetch after a failed first\<close>

text \<open>
  C5. When the fetch of the points document returns \<^verbatim>\<open>None\<close>, \<^verbatim>\<open>get_forecast\<close> returns
  "Unable to fetch forecast data for this location." and the only GET it has issued is
  the one for the points URL.
\<close>

theorem get_forecast_points_absent:
  assumes "spec_fetch_outcome (http_get w (length (requests s)) (points_url latitude longitude)) = PyNone"
  shows "fst (get_forecast w latitude longitude s) = ''Unable to fetch forecast data for this location.''
       \<and> requests (snd (get_forecast w latitude longitude s)) = requests s @ [points_url latitude longitude]"
  using assms get_forecast_requests_absent [of w s latitude longitude]
  by (simp add: get_forecast_value forecast_text_def)

theorem get_forecast_points_absent_witness:
  "fst (run_forecast (Raises (TimeoutException ''timed out'')) (ok (example_forecast []))) =
      ''Unable to fetch forecast data for this location.''
   \<and> requests (snd (run_forecast (Raises (TimeoutException ''timed out'')) (ok (example_forecast []))))
       = [PyStr ''https://api.weather.gov/points/0.0,0.0'']"
proof -
  have "spec_fetch_outcome (Raises (TimeoutException ''timed out'')) = PyNone"
    by (simp add: spec_fetch_outcome_def)
  from get_forecast_points_absent
         [OF scenario_fetch_two(1) [where lvl = INFO and first = "Raises (TimeoutException ''timed out'')",
                                    unfolded this]]
  show ?thesis
    by (simp add: run_forecast_def initial_state_def points_url_def NWS_API_BASE_def)
qed

section \<open>No exception leaves an operation\<close>

text \<open>
  C6. Both operations are total functions into strings: the handler of
  \<^verbatim>\<open>except Exception\<close> ends in a \<^verbatim>\<open>return\<close>. Wherever the \<^verbatim>\<open>try\<close> block raises, the
  operation returns its generic text: in \<^verbatim>\<open>get_alerts\<close> when the membership test, the
  subscript \<^verbatim>\<open>data["features"]\<close> or the formatting of the features raises; in
  \<^verbatim>\<open>get_forecast\<close> when the lookup of the forecast URL or the formatting of the periods
  raises.
\<close>

theorem operations_convert_failures:
  assumes "spec_fetch_outcome (http_get w (length (requests s)) (alerts_url state)) = adata"
    and "spec_fetch_outcome (http_get w (length (requests s)) (points_url latitude longitude)) = pdata"
  shows
    "(truthy adata \<and> py_contains adata ''features'' = Inl e
        \<longrightarrow> fst (get_alerts w state s) = ''An error occurred while fetching alerts.'')
   \<and> (truthy adata \<and> py_contains adata ''features'' = Inr True \<and> py_getitem adata ''features'' = Inl e
        \<longrightarrow> fst (get_alerts w state s) = ''An error occurred while fetching alerts.'')
   \<and> (py_getitem adata ''features'' = Inr features \<and> truthy features
        \<and> bind (py_iter features) (map_result (format_alert (container_repr w))) = Inl e
        \<longrightarrow> fst (get_alerts w state s) = ''An error occurred while fetching alerts.'')
   \<and> (truthy pdata
        \<and> bind (py_getitem pdata ''properties'') (\<lambda>props. py_getitem props ''forecast'') = Inl e
        \<longrightarrow> fst (get_forecast w latitude longitude s) = ''An error occurred while fetching forecast.'')
   \<and> (bind (py_getitem pdata ''properties'') (\<lambda>props. py_getitem props ''forecast'') = Inr forecast_url
        \<and> spec_fetch_outcome (http_get w (Suc (length (requests s))) forecast_url) = fdata
        \<and> truthy fdata \<and> format_periods (container_repr w) fdata = Inl e
        \<longrightarrow> fst (get_forecast w latitude longitude s) = ''An error occurred while fetching forecast.'')"
proof -
  note va = get_alerts_value [of w state s, unfolded assms(1)]
  note vf = get_forecast_value [of w latitude longitude s, unfolded assms(2)]
  have 1: "fst (get_alerts w state s) = ''An error occurred while fetching alerts.''"
    if "truthy adata" "py_contains adata ''features'' = Inl e"
    using that by (simp add: va alerts_text_def)
  have 2: "fst (get_alerts w state s) = ''An error occurred while fetching alerts.''"
    if "truthy adata" "py_contains adata ''features'' = Inr True" "py_getitem adata ''features'' = Inl e"
    using that by (simp add: va alerts_text_def)
  have 3: "fst (get_alerts w state s) = ''An error occurred while fetching alerts.''"
    if g: "py_getitem adata ''features'' = Inr features" and "truthy features"
      and "bind (py_iter features) (map_result (format_alert (container_repr w))) = Inl e"
  proof -
    from g obtain kvs where "adata = PyDict kvs" "map_of kvs ''features'' = Some features"
      by (cases adata) (auto split: option.splits)
    with that show ?thesis
      by (simp add: va alerts_text_def key_in_dict dict_nonempty)
  qed
  have 4: "fst (get_forecast w latitude longitude s) = ''An error occurred while fetching forecast.''"
    if "truthy pdata"
       "bind (py_getitem pdata ''properties'') (\<lambda>props. py_getitem props ''forecast'') = Inl e"
    using that by (simp add: vf forecast_text_def)
  have 5: "fst (get_forecast w latitude longitude s) = ''An error occurred while fetching forecast.''"
    if g: "bind (py_getitem pdata ''properties'') (\<lambda>props. py_getitem props ''forecast'') = Inr forecast_url"
      and "spec_fetch_outcome (http_get w (Suc (length (requests s))) forecast_url) = fdata"
      and "truthy fdata" and "format_periods (container_repr w) fdata = Inl e"
  proof -
    from g have "truthy pdata"
      by (cases pdata) (auto split: option.splits)
    with that show ?thesis
      by (simp add: vf forecast_text_def)
  qed
  from 1 2 3 4 5 show ?thesis by blast
qed

theorem operations_convert_failures_witness:
  "fst (run_alerts (ok (PyDict [(''features'', PyList [PyDict [(''properties'', PyNone)]])])))
      = ''An error occurred while fetching alerts.''
   \<and> fst (run_forecast (ok example_points) (ok (PyDict [(''properties'', PyDict [(''updated'', PyStr ''now'')])])))
      = ''An error occurred while fetching forecast.''"
proof -
  let ?a = "PyDict [(''features'', PyList [PyDict [(''properties'', PyNone)]])]"
  let ?f = "PyDict [(''properties'', PyDict [(''updated'', PyStr ''now'')])]"
  have a: "spec_fetch_outcome (ok ?a) = ?a" and p: "spec_fetch_outcome (ok example_points) = example_points"
    by (simp_all add: spec_fetch_outcome_def ok_def is_success_def)
  note ta = operations_convert_failures
    [where features = "PyList [PyDict [(''properties'', PyNone)]]" and e = AttributeError
       and state = "''CA''" and latitude = "''0.0''" and longitude = "''0.0''",
     OF scenario_fetch [where lvl = INFO and outcome = "ok ?a", unfolded a]
        scenario_fetch [where lvl = INFO and outcome = "ok ?a", unfolded a],
     THEN conjunct2, THEN conjunct2, THEN conjunct1]
  note tf = operations_convert_failures
    [where forecast_url = "PyStr ''https://api.weather.gov/gridpoints/TOP/31,80/forecast''"
       and fdata = ?f and e = "KeyError ''periods''" and state = "''CA''"
       and latitude = "''0.0''" and longitude = "''0.0''",
     OF scenario_fetch_two(1) [where lvl = INFO and first = "ok example_points" and second = "ok ?f", unfolded p]
        scenario_fetch_two(1) [where lvl = INFO and first = "ok example_points" and second = "ok ?f", unfolded p],
     THEN conjunct2, THEN conjunct2, THEN conjunct2, THEN conjunct2]
  from ta tf show ?thesis
    by (simp add: run_alerts_def run_forecast_def format_alert_def format_periods_def example_points_def
          scenario_world_def net_two_def initial_state_def spec_fetch_outcome_def ok_def is_success_def)
qed

section \<open>The fields of a rendered record\<close>

text \<open>
  C7. In the dict the JSON formatter serialises, every fixed field of the specification
  is present with a value that is not \<^verbatim>\<open>None\<close>, and \<^verbatim>\<open>duration\<close> is the string "0.0s"
  when the record carries no \<^verbatim>\<open>duration\<close>.
\<close>

theorem format_json_fixed_fields:
  "(\<forall>k \<in> set spec_fixed_fields.
      \<exists>v. map_of (format_json environ format_exception timestamp c r) k = Some v \<and> v \<noteq> PyNone)
   \<and> (map_of (extra r) ''duration'' = None
        \<longrightarrow> map_of (format_json environ format_exception timestamp c r) ''duration'' = Some (PyStr ''0.0s''))"
  by (simp add: format_json_def spec_fixed_fields_def Let_def split: option.splits)

theorem format_json_fixed_fields_witness:
  "(\<exists>v. map_of (format_json Map.empty example_trace ''2026-01-01T00:00:00.000000'' example_context example_record)
           ''process'' = Some v \<and> v \<noteq> PyNone)
   \<and> map_of (format_json Map.empty example_trace ''2026-01-01T00:00:00.000000'' example_context example_record)
           ''duration'' = Some (PyStr ''0.0s'')"
  using format_json_fixed_fields [of Map.empty example_trace "''2026-01-01T00:00:00.000000''"
          example_context example_record]
  by (simp add: spec_fixed_fields_def example_record_def)

section \<open>The error details of a rendered record\<close>

text \<open>
  C8. With an exception attached, \<^verbatim>\<open>error_details\<close> is the formatted traceback of the
  exception, whether or not an \<^verbatim>\<open>error_details\<close> string was supplied; with no exception
  and a supplied string, it is that string; with neither, the key is absent.
\<close>

theorem format_json_error_details:
  "(exc_info r = Some e
      \<longrightarrow> map_of (format_json environ format_exception timestamp c r) ''error_details''
            = Some (PyStr (format_exception e)))
   \<and> (exc_info r = None \<and> map_of (extra r) ''error_details'' = Some d
      \<longrightarrow> map_of (format_json environ format_exception timestamp c r) ''error_details'' = Some (PyStr d))
   \<and> (exc_info r = None \<and> map_of (extra r) ''error_details'' = None
      \<longrightarrow> ''error_details'' \<notin> fst ` set (format_json environ format_exception timestamp c r))"
  by (simp add: format_json_def Let_def)

theorem format_json_error_details_witness:
  "map_of (format_json Map.empty example_trace ''2026-01-01T00:00:00.000000'' example_context
            (example_record\<lparr>exc_info := Some (Inr (KeyError ''properties'')),
                             extra := [(''error_details'', ''supplied'')]\<rparr>)) ''error_details''
     = Some (PyStr ''Traceback (most recent call last): ...'')
   \<and> map_of (format_json Map.empty example_trace ''2026-01-01T00:00:00.000000'' example_context
            (example_record\<lparr>extra := [(''error_details'', ''supplied'')]\<rparr>)) ''error_details''
     = Some (PyStr ''supplied'')
   \<and> ''error_details'' \<notin> fst ` set (format_json Map.empty example_trace ''2026-01-01T00:00:00.000000''
            example_context example_record)"
proof -
  note th = format_json_error_details [where environ = Map.empty and format_exception = example_trace
      and timestamp = "''2026-01-01T00:00:00.000000''" and c = example_context]
  from th [where r = "example_record\<lparr>exc_info := Some (Inr (KeyError ''properties'')),
                             extra := [(''error_details'', ''supplied'')]\<rparr>"
             and e = "Inr (KeyError ''properties'')"]
       th [where r = "example_record\<lparr>extra := [(''error_details'', ''supplied'')]\<rparr>"
             and d = "''supplied''"]
       th [where r = example_record]
  show ?thesis
    by (simp add: example_record_def example_trace_def)
qed


end
